theory Spec2Isabelle
  imports Main
begin

section \<open>Data model of the authentication subsystem\<close>

text \<open>
  Timestamps (\<^verbatim>\<open>datetime.utcnow()\<close>) are seconds as integers; a
  \<^verbatim>\<open>timedelta\<close> is a number of seconds.  Tables are lists of rows in storage
  order, so that \<^verbatim>\<open>.first()\<close> is the first row that passes the filter,
  \<^verbatim>\<open>.all()\<close> the filtered list and \<^verbatim>\<open>.count()\<close> its length.
\<close>

type_synonym time = int

record user =
  u_id :: int
  username :: string
  email :: "string option"
  password_hash :: "string option"
  is_admin :: bool
  is_active :: bool
  auth_provider :: string
  updated_at :: "time option"
  last_login_at :: "time option"

record user_identity =
  i_id :: int
  i_user_id :: int
  provider :: string
  external_id :: "string option"
  i_identifier :: string
  i_last_used_at :: "time option"

record user_session =
  s_user_id :: int
  refresh_token_hash :: string
  ip_address :: "string option"
  user_agent :: string
  is_revoked :: bool
  expires_at :: time
  last_used_at :: "time option"

record password_reset_token =
  t_user_id :: int
  token_hash :: string
  t_expires_at :: time
  used_at :: "time option"

record db =
  users :: "user list"
  identities :: "user_identity list"
  sessions :: "user_session list"
  reset_tokens :: "password_reset_token list"

text \<open>The errors the routes raise, with the status code and the message of the source.\<close>

datatype auth_error =
    AuthenticationError string
  | HTTPException nat string

text \<open>The exceptions of the token module, which the refresh route translates.\<close>

datatype token_error =
    TokenExpiredError
  | TokenRevokedError
  | InvalidTokenError string

text \<open>Decoded claims are a JSON object: a dictionary from claim names to values.\<close>

datatype jval = JNull | JInt int | JStr string

type_synonym claims = "string \<rightharpoonup> jval"

text \<open>
  The helpers that \<^verbatim>\<open>auth/routes.py\<close> imports from \<^verbatim>\<open>auth/tokens.py\<close> and
  \<^verbatim>\<open>auth/password.py\<close> are taken as parameters.  Decoding and issuing read the
  clock, so they take the time of the call; \<^verbatim>\<open>hash_password\<close> draws a random salt,
  which is its first argument; \<^verbatim>\<open>validate_password\<close> returns a result with the
  fields \<^verbatim>\<open>valid\<close> and \<^verbatim>\<open>error\<close>.
\<close>

record deps =
  ext_decode_token :: "time \<Rightarrow> string \<Rightarrow> token_error + claims"
  ext_hash_token :: "string \<Rightarrow> string"
  ext_rotate_refresh_token :: "time \<Rightarrow> string \<Rightarrow> token_error + (string \<times> string)"
  ext_create_access_token :: "time \<Rightarrow> int \<Rightarrow> string \<Rightarrow> string"
  ext_create_refresh_token :: "time \<Rightarrow> int \<Rightarrow> string"
  ext_verify_password :: "string \<Rightarrow> string \<Rightarrow> bool"
  ext_hash_password :: "nat \<Rightarrow> string \<Rightarrow> string"
  ext_validate_password :: "string \<Rightarrow> string \<Rightarrow> bool \<times> string option"

subsection \<open>Row operations of the ORM\<close>

text \<open>
  An object returned by \<^verbatim>\<open>.first()\<close> is the first row passing the filter;
  assigning to its attributes and committing rewrites that row in place, and
  \<^verbatim>\<open>session.delete(obj)\<close> removes that row.
\<close>

fun update_first :: "('a \<Rightarrow> bool) \<Rightarrow> ('a \<Rightarrow> 'a) \<Rightarrow> 'a list \<Rightarrow> 'a list" where
  "update_first P f [] = []"
| "update_first P f (x # xs) = (if P x then f x # xs else x # update_first P f xs)"

fun delete_first :: "('a \<Rightarrow> bool) \<Rightarrow> 'a list \<Rightarrow> 'a list" where
  "delete_first P [] = []"
| "delete_first P (x # xs) = (if P x then xs else x # delete_first P xs)"

text \<open>A request that raises never reaches its commit: the store stays as it was.\<close>

definition db_after :: "db \<Rightarrow> auth_error + (db \<times> 'a) \<Rightarrow> db" where
  "db_after d r = (case r of Inl e \<Rightarrow> d | Inr (d', x) \<Rightarrow> d')"

section \<open>Token refresh (\<^verbatim>\<open>refresh_tokens\<close>)\<close>

definition days :: "int \<Rightarrow> int" where
  "days n = n * 86400"

text \<open>The three \<^verbatim>\<open>except\<close> clauses at the end of \<^verbatim>\<open>refresh_tokens\<close>.\<close>

fun refresh_except :: "token_error \<Rightarrow> auth_error" where
  "refresh_except TokenExpiredError = AuthenticationError ''Refresh token expired''"
| "refresh_except TokenRevokedError = AuthenticationError ''Refresh token revoked''"
| "refresh_except (InvalidTokenError e) = AuthenticationError (''Invalid refresh token: '' @ e)"

definition live_session :: "string \<Rightarrow> user_session \<Rightarrow> bool" where
  "live_session h s \<longleftrightarrow> refresh_token_hash s = h \<and> \<not> is_revoked s"

text \<open>
  \<^verbatim>\<open>refresh_tokens\<close>: the cookie's refresh token (absent or empty: no token), the
  configured \<^verbatim>\<open>refresh_token_expire_days\<close>, the clock and the store.  Success
  returns the committed store with the new access and refresh tokens.
\<close>

definition refresh_tokens ::
  "deps \<Rightarrow> int \<Rightarrow> time \<Rightarrow> db \<Rightarrow> string option \<Rightarrow> auth_error + (db \<times> string \<times> string)" where
  "refresh_tokens L expire_days now d cookie =
    (case cookie of
       None \<Rightarrow> Inl (AuthenticationError ''No refresh token provided'')
     | Some refresh_token \<Rightarrow>
        if refresh_token = [] then Inl (AuthenticationError ''No refresh token provided'')
        else
          (case ext_decode_token L now refresh_token of
             Inl e \<Rightarrow> Inl (refresh_except e)
           | Inr claims \<Rightarrow>
              if claims ''type'' \<noteq> Some (JStr ''refresh'')
              then Inl (AuthenticationError ''Invalid token type'')
              else if claims ''sub'' = None \<or> claims ''sub'' = Some JNull
              then Inl (AuthenticationError ''Invalid token payload'')
              else
                (let token_hash = ext_hash_token L refresh_token in
                 case find (live_session token_hash) (sessions d) of
                   None \<Rightarrow> Inl (AuthenticationError ''Session not found or revoked'')
                 | Some user_session \<Rightarrow>
                    if expires_at user_session < now
                    then Inl (AuthenticationError ''Session expired'')
                    else
                      (case find (\<lambda>u. Some (JInt (u_id u)) = claims ''sub'') (users d) of
                         None \<Rightarrow> Inl (AuthenticationError ''User not found or disabled'')
                       | Some usr \<Rightarrow>
                          if \<not> is_active usr
                          then Inl (AuthenticationError ''User not found or disabled'')
                          else
                            (case ext_rotate_refresh_token L now refresh_token of
                               Inl e \<Rightarrow> Inl (refresh_except e)
                             | Inr (new_access_token, new_refresh_token) \<Rightarrow>
                                Inr (d\<lparr>sessions :=
                                       update_first (live_session token_hash)
                                         (\<lambda>s. s\<lparr>refresh_token_hash :=
                                                   ext_hash_token L new_refresh_token,
                                                 last_used_at := Some now,
                                                 expires_at := now + days expire_days\<rparr>)
                                         (sessions d)\<rparr>,
                                     new_access_token, new_refresh_token))))))"

subsection \<open>A concrete scenario for token refresh\<close>

text \<open>
  A store with one active user and one session, and token helpers on literal tokens:
  \<^verbatim>\<open>r1\<close> and \<^verbatim>\<open>r2\<close> are refresh tokens of user 1 that expire after time 1000,
  \<^verbatim>\<open>a1\<close> is an access token, rotation of \<^verbatim>\<open>r1\<close> issues \<^verbatim>\<open>a2\<close> and \<^verbatim>\<open>r2\<close>.
\<close>

definition example_refresh_claims :: claims where
  "example_refresh_claims = [''type'' \<mapsto> JStr ''refresh'', ''sub'' \<mapsto> JInt 1]"

definition example_access_claims :: claims where
  "example_access_claims = [''sub'' \<mapsto> JInt 1, ''username'' \<mapsto> JStr ''admin'']"

definition example_deps :: deps where
  "example_deps =
    \<lparr>ext_decode_token = (\<lambda>now t.
        if t = ''r1'' \<or> t = ''r2''
        then (if 1000 < now then Inl TokenExpiredError else Inr example_refresh_claims)
        else if t = ''a1'' then Inr example_access_claims
        else Inl (InvalidTokenError ''Not enough segments'')),
     ext_hash_token = (\<lambda>t. ''sha256:'' @ t),
     ext_rotate_refresh_token = (\<lambda>now t.
        if t = ''r1'' then Inr (''a2'', ''r2'') else Inr (''a3'', ''r3'')),
     ext_create_access_token = (\<lambda>now uid name. ''a1''),
     ext_create_refresh_token = (\<lambda>now uid. ''r1''),
     ext_verify_password = (\<lambda>plain hashed. hashed = ''bcrypt:'' @ plain),
     ext_hash_password = (\<lambda>salt plain. ''bcrypt:'' @ plain),
     ext_validate_password = (\<lambda>pw name.
        if length pw < 8 then (False, Some ''Password must be at least 8 characters'')
        else (True, None))\<rparr>"

definition example_admin :: user where
  "example_admin =
    \<lparr>u_id = 1, username = ''admin'', email = Some ''admin@example.org'',
     password_hash = Some ''bcrypt:validpassword123'', is_admin = True, is_active = True,
     auth_provider = ''local'', updated_at = None, last_login_at = None\<rparr>"

definition example_session :: user_session where
  "example_session =
    \<lparr>s_user_id = 1, refresh_token_hash = ''sha256:r1'', ip_address = None,
     user_agent = ''curl'', is_revoked = False, expires_at = 5000, last_used_at = None\<rparr>"

definition example_db :: db where
  "example_db =
    \<lparr>users = [example_admin], identities = [], sessions = [example_session],
     reset_tokens = []\<rparr>"

section \<open>Local login (\<^verbatim>\<open>login\<close>)\<close>

text \<open>
  The user a login request names: the owner of the local identity with that identifier,
  otherwise (no such identity) the first user with that username.
\<close>

definition login_identity :: "db \<Rightarrow> string \<Rightarrow> user_identity option" where
  "login_identity d uname =
     find (\<lambda>i. provider i = ''local'' \<and> i_identifier i = uname) (identities d)"

definition login_user_filter :: "db \<Rightarrow> string \<Rightarrow> user \<Rightarrow> bool" where
  "login_user_filter d uname =
     (case login_identity d uname of
        Some i \<Rightarrow> (\<lambda>u. u_id u = i_user_id i)
      | None \<Rightarrow> (\<lambda>u. username u = uname))"

definition login_user :: "db \<Rightarrow> string \<Rightarrow> user option" where
  "login_user d uname = find (login_user_filter d uname) (users d)"

definition has_local_identity :: "db \<Rightarrow> user \<Rightarrow> bool" where
  "has_local_identity d u \<longleftrightarrow>
     find (\<lambda>i. i_user_id i = u_id u \<and> provider i = ''local'') (identities d) \<noteq> None"

text \<open>
  \<^verbatim>\<open>not user.password_hash or not verify_password(password, user.password_hash)\<close>:
  a missing or empty hash fails like a wrong password.
\<close>

definition password_rejected :: "deps \<Rightarrow> string \<Rightarrow> user \<Rightarrow> bool" where
  "password_rejected L pw u \<longleftrightarrow>
     (case password_hash u of
        None \<Rightarrow> True
      | Some h \<Rightarrow> h = [] \<or> \<not> ext_verify_password L pw h)"

definition login ::
  "deps \<Rightarrow> int \<Rightarrow> time \<Rightarrow> db \<Rightarrow> string \<Rightarrow> string \<Rightarrow> string option \<Rightarrow> string
     \<Rightarrow> auth_error + (db \<times> user \<times> string \<times> string)" where
  "login L expire_days now d uname pw client_host agent =
    (case login_user d uname of
       None \<Rightarrow> Inl (HTTPException 401 ''Invalid username or password'')
     | Some u \<Rightarrow>
        if \<not> has_local_identity d u \<and> auth_provider u \<noteq> ''local''
        then Inl (HTTPException 401
                    ''Please use your configured authentication provider to log in'')
        else if password_rejected L pw u
        then Inl (HTTPException 401 ''Invalid username or password'')
        else if \<not> is_active u
        then Inl (HTTPException 401 ''User account is disabled'')
        else
          (let access_token = ext_create_access_token L now (u_id u) (username u);
               refresh_token = ext_create_refresh_token L now (u_id u);
               user_session =
                 \<lparr>s_user_id = u_id u,
                  refresh_token_hash = ext_hash_token L refresh_token,
                  ip_address = client_host,
                  user_agent = take 500 agent,
                  is_revoked = False,
                  expires_at = now + days expire_days,
                  last_used_at = None\<rparr>
           in Inr (d\<lparr>identities :=
                      update_first (\<lambda>i. provider i = ''local'' \<and> i_identifier i = uname)
                        (\<lambda>i. i\<lparr>i_last_used_at := Some now\<rparr>) (identities d),
                    sessions := sessions d @ [user_session],
                    users :=
                      update_first (login_user_filter d uname)
                        (\<lambda>x. x\<lparr>last_login_at := Some now\<rparr>) (users d)\<rparr>,
                   u\<lparr>last_login_at := Some now\<rparr>, access_token, refresh_token)))"

subsection \<open>A store with a single-sign-on account\<close>

definition example_sso_user :: user where
  "example_sso_user =
    \<lparr>u_id = 2, username = ''carol'', email = Some ''carol@example.org'',
     password_hash = None, is_admin = False, is_active = True,
     auth_provider = ''dispatcharr'', updated_at = None, last_login_at = None\<rparr>"

definition example_sso_identity :: user_identity where
  "example_sso_identity =
    \<lparr>i_id = 10, i_user_id = 2, provider = ''dispatcharr'', external_id = Some ''77'',
     i_identifier = ''carol'', i_last_used_at = None\<rparr>"

definition example_sso_db :: db where
  "example_sso_db =
    \<lparr>users = [example_admin, example_sso_user], identities = [example_sso_identity],
     sessions = [], reset_tokens = []\<rparr>"

section \<open>Identity unlinking\<close>

definition identity_count :: "db \<Rightarrow> int \<Rightarrow> nat" where
  "identity_count d uid = length (filter (\<lambda>i. i_user_id i = uid) (identities d))"

text \<open>The route \<^verbatim>\<open>unlink_identity\<close>, called by the user \<^verbatim>\<open>uid\<close>.\<close>

definition unlink_identity :: "db \<Rightarrow> int \<Rightarrow> int \<Rightarrow> auth_error + (db \<times> string)" where
  "unlink_identity d uid identity_id =
    (case find (\<lambda>i. i_id i = identity_id \<and> i_user_id i = uid) (identities d) of
       None \<Rightarrow> Inl (HTTPException 404 ''Identity not found'')
     | Some identity \<Rightarrow>
        if identity_count d uid \<le> 1
        then Inl (HTTPException 400
                    ''Cannot unlink your last identity - you would be locked out'')
        else Inr (d\<lparr>identities :=
                     delete_first (\<lambda>i. i_id i = identity_id \<and> i_user_id i = uid)
                       (identities d)\<rparr>,
                  ''Identity unlinked successfully''))"

text \<open>
  The helper \<^verbatim>\<open>remove_user_identity\<close>: a bulk delete of the rows with that id and
  owner, whose result is the number of rows deleted.
\<close>

definition remove_user_identity :: "db \<Rightarrow> int \<Rightarrow> int \<Rightarrow> db \<times> bool" where
  "remove_user_identity d identity_id uid =
    (if identity_count d uid \<le> 1 then (d, False)
     else
       (let result = length (filter (\<lambda>i. i_id i = identity_id \<and> i_user_id i = uid)
                               (identities d))
        in (d\<lparr>identities :=
                filter (\<lambda>i. \<not> (i_id i = identity_id \<and> i_user_id i = uid)) (identities d)\<rparr>,
            0 < result)))"

definition example_local_identity :: user_identity where
  "example_local_identity =
    \<lparr>i_id = 11, i_user_id = 2, provider = ''local'', external_id = None,
     i_identifier = ''carol'', i_last_used_at = None\<rparr>"

section \<open>Password reset (\<^verbatim>\<open>forgot_password\<close>, \<^verbatim>\<open>reset_password\<close>)\<close>

datatype forgot_password_response = ForgotPasswordResponse string

definition forgot_password_message :: string where
  "forgot_password_message =
     ''If an account with that email exists, a password reset link has been sent.''"

definition hours :: "int \<Rightarrow> int" where
  "hours n = n * 3600"

text \<open>
  \<^verbatim>\<open>forgot_password\<close>: \<^verbatim>\<open>raw_token\<close> is the value drawn from
  \<^verbatim>\<open>secrets.token_urlsafe\<close> and \<^verbatim>\<open>salt\<close> the salt of its hash.  The result is
  the committed store, the mail handed to the mailer (recipient, raw token, base URL), and
  the response.
\<close>

definition forgot_password ::
  "deps \<Rightarrow> time \<Rightarrow> string \<Rightarrow> nat \<Rightarrow> string \<Rightarrow> db \<Rightarrow> string
     \<Rightarrow> db \<times> (string option \<times> string \<times> string) option \<times> forgot_password_response" where
  "forgot_password L now raw_token salt base_url d request_email =
    (case find (\<lambda>u. email u = Some request_email) (users d) of
       None \<Rightarrow> (d, None, ForgotPasswordResponse forgot_password_message)
     | Some u \<Rightarrow>
        if is_active u \<and> auth_provider u = ''local''
        then
          (let reset_token =
                 \<lparr>t_user_id = u_id u,
                  token_hash = ext_hash_password L salt raw_token,
                  t_expires_at = now + hours 1,
                  used_at = None\<rparr>
           in (d\<lparr>reset_tokens := reset_tokens d @ [reset_token]\<rparr>,
               Some (email u, raw_token, base_url),
               ForgotPasswordResponse forgot_password_message))
        else (d, None, ForgotPasswordResponse forgot_password_message))"






section \<open>Authentication settings (\<^verbatim>\<open>auth/settings.py\<close>)\<close>

record jwt_settings =
  secret_key :: string
  algorithm :: string
  access_token_expire_minutes :: int
  refresh_token_expire_days :: int

record session_settings =
  max_sessions_per_user :: int
  inactivity_timeout_minutes :: int
  extend_on_activity :: bool

record local_auth_settings =
  local_enabled :: bool
  min_password_length :: int
  require_uppercase :: bool
  require_lowercase :: bool
  require_number :: bool
  require_special :: bool

record dispatcharr_auth_settings =
  dispatcharr_enabled :: bool
  use_dispatcharr_auth :: bool
  auto_create_users :: bool

datatype auth_mode = LocalMode | DispatcharrMode

record auth_settings =
  setup_complete :: bool
  primary_auth_mode :: auth_mode
  require_auth :: bool
  jwt :: jwt_settings
  session_cfg :: session_settings
  local_cfg :: local_auth_settings
  dispatcharr_cfg :: dispatcharr_auth_settings

text \<open>The defaults of the settings classes.\<close>

definition JWTSettings :: jwt_settings where
  "JWTSettings =
    \<lparr>secret_key = [], algorithm = ''HS256'', access_token_expire_minutes = 30,
     refresh_token_expire_days = 7\<rparr>"


definition LocalAuthSettings :: local_auth_settings where
  "LocalAuthSettings =
    \<lparr>local_enabled = True, min_password_length = 8, require_uppercase = True,
     require_lowercase = True, require_number = True, require_special = False\<rparr>"



text \<open>
  The module state is the cache \<^verbatim>\<open>_cached_auth_settings\<close> and the content of
  \<^verbatim>\<open>auth_settings.json\<close>: absent, settings that parse, or text that does not.
  The file system and the random source answer through an environment: whether the
  config directory can be made, how writing the file ends, and the keys that
  \<^verbatim>\<open>_generate_secret_key\<close> returns at its first and second call.
\<close>

datatype file_content = Parsed auth_settings | Unparsable

record settings_state =
  cached_auth_settings :: "auth_settings option"
  config_file :: "file_content option"









definition clear_auth_settings_cache :: "settings_state \<Rightarrow> settings_state" where
  "clear_auth_settings_cache st = st\<lparr>cached_auth_settings := None\<rparr>"



section \<open>Password policy (\<^verbatim>\<open>validate_password\<close>)\<close>

text \<open>
  Modelled from the spec: \<^verbatim>\<open>auth/password.py\<close>, which defines
  \<^verbatim>\<open>validate_password\<close> and \<^verbatim>\<open>PasswordValidationResult\<close>, is not among the
  sources; only its tests and the policy settings \<^verbatim>\<open>LocalAuthSettings\<close> are.  The rules
  and their order are those of section 4.2 of the specification: minimum length, an
  uppercase letter, a lowercase letter, a digit, optionally a special character, the
  deny-list of common passwords (compared case-insensitively), and the supplied username
  (equal to or contained in the password, case-insensitively).  The error is the message
  of the first rule that fails, represented by the rule it cites.  The deny-list itself is
  a parameter.  A special character is one that is neither a letter nor a digit.
\<close>

datatype password_rule =
    MinLength | Uppercase | Lowercase | Digit | Special | CommonPassword | ContainsUsername

record password_validation_result =
  valid :: bool
  error :: "password_rule option"

definition is_upper :: "char \<Rightarrow> bool" where
  "is_upper c \<longleftrightarrow> (65::nat) \<le> of_char c \<and> of_char c \<le> (90::nat)"

definition is_lower :: "char \<Rightarrow> bool" where
  "is_lower c \<longleftrightarrow> (97::nat) \<le> of_char c \<and> of_char c \<le> (122::nat)"

definition is_digit :: "char \<Rightarrow> bool" where
  "is_digit c \<longleftrightarrow> (48::nat) \<le> of_char c \<and> of_char c \<le> (57::nat)"

definition is_special :: "char \<Rightarrow> bool" where
  "is_special c \<longleftrightarrow> \<not> is_upper c \<and> \<not> is_lower c \<and> \<not> is_digit c"

definition lower_char :: "char \<Rightarrow> char" where
  "lower_char c = (if is_upper c then char_of (of_char c + (32::nat)) else c)"

definition lower :: "string \<Rightarrow> string" where
  "lower s = map lower_char s"

fun contains :: "string \<Rightarrow> string \<Rightarrow> bool" where
  "contains needle [] \<longleftrightarrow> needle = []"
| "contains needle (c # cs) \<longleftrightarrow>
     take (length needle) (c # cs) = needle \<or> contains needle cs"

definition validate_password ::
  "local_auth_settings \<Rightarrow> string list \<Rightarrow> string \<Rightarrow> string option
     \<Rightarrow> password_validation_result" where
  "validate_password cfg common password uname =
    (if int (length password) < min_password_length cfg
     then \<lparr>valid = False, error = Some MinLength\<rparr>
     else if require_uppercase cfg \<and> \<not> list_ex is_upper password
     then \<lparr>valid = False, error = Some Uppercase\<rparr>
     else if require_lowercase cfg \<and> \<not> list_ex is_lower password
     then \<lparr>valid = False, error = Some Lowercase\<rparr>
     else if require_number cfg \<and> \<not> list_ex is_digit password
     then \<lparr>valid = False, error = Some Digit\<rparr>
     else if require_special cfg \<and> \<not> list_ex is_special password
     then \<lparr>valid = False, error = Some Special\<rparr>
     else if lower password \<in> set (map lower common)
     then \<lparr>valid = False, error = Some CommonPassword\<rparr>
     else if (case uname of None \<Rightarrow> False | Some u \<Rightarrow> contains (lower u) (lower password))
     then \<lparr>valid = False, error = Some ContainsUsername\<rparr>
     else \<lparr>valid = True, error = None\<rparr>)"

text \<open>
  The policy as the specification words it: the list of the rules that are switched on,
  in order, and what it means for a password to pass each.
\<close>

definition enabled_rules :: "local_auth_settings \<Rightarrow> password_rule list" where
  "enabled_rules cfg =
     [MinLength]
     @ (if require_uppercase cfg then [Uppercase] else [])
     @ (if require_lowercase cfg then [Lowercase] else [])
     @ (if require_number cfg then [Digit] else [])
     @ (if require_special cfg then [Special] else [])
     @ [CommonPassword, ContainsUsername]"

fun rule_passes ::
  "local_auth_settings \<Rightarrow> string list \<Rightarrow> string option \<Rightarrow> string \<Rightarrow> password_rule \<Rightarrow> bool" where
  "rule_passes cfg common uname p MinLength \<longleftrightarrow> min_password_length cfg \<le> int (length p)"
| "rule_passes cfg common uname p Uppercase \<longleftrightarrow> list_ex is_upper p"
| "rule_passes cfg common uname p Lowercase \<longleftrightarrow> list_ex is_lower p"
| "rule_passes cfg common uname p Digit \<longleftrightarrow> list_ex is_digit p"
| "rule_passes cfg common uname p Special \<longleftrightarrow> list_ex is_special p"
| "rule_passes cfg common uname p CommonPassword \<longleftrightarrow> lower p \<notin> set (map lower common)"
| "rule_passes cfg common uname p ContainsUsername \<longleftrightarrow>
     (case uname of None \<Rightarrow> True | Some u \<Rightarrow> \<not> contains (lower u) (lower p))"

text \<open>The passwords that the tests of the policy expect to be refused as common.\<close>

definition example_common_passwords :: "string list" where
  "example_common_passwords =
     [''password123!'', ''qwerty123!'', ''admin123!'', ''welcome123!'', ''letmein123!'']"

section \<open>Token service (\<^verbatim>\<open>create_access_token\<close>, \<^verbatim>\<open>decode_token\<close>)\<close>

text \<open>
  Modelled from the spec: \<^verbatim>\<open>auth/tokens.py\<close>, which defines
  \<^verbatim>\<open>create_access_token\<close>, \<^verbatim>\<open>create_refresh_token\<close> and \<^verbatim>\<open>decode_token\<close>, is not
  among the sources; only its tests and the settings \<^verbatim>\<open>JWTSettings\<close> are.  Following
  sections 4.3 and 6 of the specification, a token has three segments: a header naming the
  algorithm, a payload that is a JSON object of claims, and a signature over both under
  the signing secret.  An access token carries \<^verbatim>\<open>sub\<close>, \<^verbatim>\<open>username\<close>, \<^verbatim>\<open>iat\<close> and
  \<^verbatim>\<open>exp\<close>, a refresh token \<^verbatim>\<open>sub\<close>, \<^verbatim>\<open>type\<close>, \<^verbatim>\<open>iat\<close> and \<^verbatim>\<open>exp\<close>; lifetimes
  come from the settings unless given.  Decoding fails with \<^verbatim>\<open>InvalidTokenError\<close> on a
  signature that does not verify and with \<^verbatim>\<open>TokenExpiredError\<close> once \<^verbatim>\<open>exp\<close> has
  passed.  The keyed signature function is a parameter.
\<close>

record token =
  tk_header :: string
  tk_payload :: "(string \<times> jval) list"
  tk_signature :: string

type_synonym signer = "string \<Rightarrow> string \<times> (string \<times> jval) list \<Rightarrow> string"

definition minutes :: "int \<Rightarrow> int" where
  "minutes n = n * 60"

definition sign_token :: "signer \<Rightarrow> jwt_settings \<Rightarrow> (string \<times> jval) list \<Rightarrow> token" where
  "sign_token mac cfg payload =
    \<lparr>tk_header = algorithm cfg, tk_payload = payload,
     tk_signature = mac (secret_key cfg) (algorithm cfg, payload)\<rparr>"

definition create_access_token ::
  "signer \<Rightarrow> jwt_settings \<Rightarrow> time \<Rightarrow> int \<Rightarrow> string \<Rightarrow> int option \<Rightarrow> token" where
  "create_access_token mac cfg now user_id uname expires_delta =
    (let ttl = (case expires_delta of
                  None \<Rightarrow> minutes (access_token_expire_minutes cfg)
                | Some delta \<Rightarrow> delta)
     in sign_token mac cfg
          [(''sub'', JInt user_id), (''username'', JStr uname),
           (''iat'', JInt now), (''exp'', JInt (now + ttl))])"

definition create_refresh_token ::
  "signer \<Rightarrow> jwt_settings \<Rightarrow> time \<Rightarrow> int \<Rightarrow> int option \<Rightarrow> token" where
  "create_refresh_token mac cfg now user_id expires_delta =
    (let ttl = (case expires_delta of
                  None \<Rightarrow> days (refresh_token_expire_days cfg)
                | Some delta \<Rightarrow> delta)
     in sign_token mac cfg
          [(''sub'', JInt user_id), (''type'', JStr ''refresh''),
           (''iat'', JInt now), (''exp'', JInt (now + ttl))])"

definition decode_token :: "signer \<Rightarrow> jwt_settings \<Rightarrow> time \<Rightarrow> token \<Rightarrow> token_error + claims" where
  "decode_token mac cfg now tok =
    (if tk_header tok \<noteq> algorithm cfg
        \<or> tk_signature tok \<noteq> mac (secret_key cfg) (tk_header tok, tk_payload tok)
     then Inl (InvalidTokenError ''Signature verification failed'')
     else
       (case map_of (tk_payload tok) ''exp'' of
          Some (JInt e) \<Rightarrow>
            if e < now then Inl TokenExpiredError else Inr (map_of (tk_payload tok))
        | _ \<Rightarrow> Inl (InvalidTokenError ''Token is missing the exp claim'')))"

definition example_signer :: signer where
  "example_signer key msg = key @ ''/'' @ fst msg @ ''/'' @ concat (map fst (snd msg))"

definition example_jwt_settings :: jwt_settings where
  "example_jwt_settings = JWTSettings\<lparr>secret_key := ''s3cret''\<rparr>"

section \<open>Properties of token refresh\<close>




lemma refresh_tokens_success_session:
  assumes "refresh_tokens L n now d (Some r) = Inr (d', a', r')"
  shows "sessions d' =
           update_first (live_session (ext_hash_token L r))
             (\<lambda>s. s\<lparr>refresh_token_hash := ext_hash_token L r',
                     last_used_at := Some now,
                     expires_at := now + days n\<rparr>)
             (sessions d)"
    and "\<exists>c. ext_decode_token L now r = Inr c \<and> c ''type'' = Some (JStr ''refresh'')
             \<and> c ''sub'' \<noteq> None \<and> c ''sub'' \<noteq> Some JNull"
  using assms
  by (auto simp: refresh_tokens_def Let_def
           split: if_splits sum.splits option.splits prod.splits)

subsection \<open>Stored hashes stay pairwise distinct\<close>

text \<open>
  When every token that login or rotation issues has a hash that no session row stores
  yet, the hashes of the session table stay pairwise distinct, and then at most one live
  row carries any given hash.
\<close>

lemma set_map_update_first:
  "set (map g (update_first P f xs)) \<subseteq> set (map g xs) \<union> g ` f ` set xs"
  by (induction xs) auto

lemma distinct_update_first:
  assumes "distinct (map g xs)" and "\<And>x. x \<in> set xs \<Longrightarrow> g (f x) = h" and "h \<notin> set (map g xs)"
  shows "distinct (map g (update_first P f xs))"
  using assms
proof (induction xs)
  case Nil
  then show ?case by simp
next
  case (Cons x xs)
  show ?case
  proof (cases "P x")
    case True
    with Cons.prems show ?thesis by auto
  next
    case False
    have ih: "distinct (map g (update_first P f xs))"
      using Cons by auto
    have "set (map g (update_first P f xs)) \<subseteq> set (map g xs) \<union> g ` f ` set xs"
      by (rule set_map_update_first)
    moreover have "g ` f ` set xs \<subseteq> {h}"
      using Cons.prems(2) by auto
    moreover have "g x \<noteq> h" and "g x \<notin> set (map g xs)"
      using Cons.prems by auto
    ultimately have "g x \<notin> set (map g (update_first P f xs))"
      by blast
    with False ih show ?thesis by simp
  qed
qed

lemma refresh_tokens_keeps_hashes_distinct:
  assumes "refresh_tokens L n now d (Some r) = Inr (d', a', r')"
    and "distinct (map refresh_token_hash (sessions d))"
    and "ext_hash_token L r' \<notin> set (map refresh_token_hash (sessions d))"
  shows "distinct (map refresh_token_hash (sessions d'))"
proof -
  have "distinct (map refresh_token_hash
          (update_first (live_session (ext_hash_token L r))
             (\<lambda>s. s\<lparr>refresh_token_hash := ext_hash_token L r',
                     last_used_at := Some now,
                     expires_at := now + days n\<rparr>)
             (sessions d)))"
    using assms(2) _ assms(3) by (rule distinct_update_first) simp
  with refresh_tokens_success_session(1) [OF assms(1)] show ?thesis by simp
qed

lemma login_keeps_hashes_distinct:
  assumes "login L n now d uname pw host agent = Inr (d', u', a', r')"
    and "distinct (map refresh_token_hash (sessions d))"
    and "ext_hash_token L r' \<notin> set (map refresh_token_hash (sessions d))"
  shows "distinct (map refresh_token_hash (sessions d'))"
  using assms
  by (auto simp: login_def Let_def split: option.splits if_splits)

lemma distinct_hashes_one_live:
  assumes "distinct (map refresh_token_hash xs)"
  shows "length (filter (live_session h) xs) \<le> 1"
  using assms
proof (induction xs)
  case Nil
  then show ?case by simp
next
  case (Cons x xs)
  show ?case
  proof (cases "live_session h x")
    case True
    from Cons.prems have "refresh_token_hash x \<notin> set (map refresh_token_hash xs)" by simp
    with True have "\<forall>y \<in> set xs. \<not> live_session h y"
      by (auto simp: live_session_def image_iff)
    then have "filter (live_session h) xs = []" by (simp add: filter_empty_conv)
    with True show ?thesis by simp
  next
    case False
    with Cons show ?thesis by simp
  qed
qed

subsection \<open>The scenario, evaluated\<close>


subsection \<open>Claims about token refresh\<close>

text \<open>
  C5.  A presented token that decodes, but whose claims do not carry
  \<^verbatim>\<open>type == "refresh"\<close> (an access token in particular), is rejected with the
  invalid-token-type error; no token is issued and the store is left as it was.
\<close>

theorem refresh_tokens_rejects_wrong_type:
  assumes "tok \<noteq> []"
    and "ext_decode_token L now tok = Inr c"
    and "c ''type'' \<noteq> Some (JStr ''refresh'')"
  shows "refresh_tokens L n now d (Some tok) = Inl (AuthenticationError ''Invalid token type'')
       \<and> db_after d (refresh_tokens L n now d (Some tok)) = d"
  using assms by (simp add: refresh_tokens_def db_after_def)

theorem refresh_tokens_rejects_wrong_type_witness:
  "refresh_tokens example_deps 7 0 example_db (Some ''a1'') =
     Inl (AuthenticationError ''Invalid token type'')
   \<and> db_after example_db (refresh_tokens example_deps 7 0 example_db (Some ''a1'')) = example_db"
proof -
  have h1: "''a1'' \<noteq> []" by simp
  have h2: "ext_decode_token example_deps 0 ''a1'' = Inr example_access_claims"
    by (simp add: example_deps_def)
  have h3: "example_access_claims ''type'' \<noteq> Some (JStr ''refresh'')"
    by (simp add: example_access_claims_def)
  show ?thesis
    by (rule refresh_tokens_rejects_wrong_type [OF h1 h2 h3])
qed

text \<open>
  C9.  A refresh token that decodes and matches a live (non-revoked, non-expired) session
  row is still refused with an authentication error when the user named by its
  \<^verbatim>\<open>sub\<close> claim is missing or inactive: no token is issued and the store, hence the
  session row's hash, \<^verbatim>\<open>last_used_at\<close> and \<^verbatim>\<open>expires_at\<close>, is unchanged.  For a
  well-formed refresh token the error is "User not found or disabled".
\<close>

theorem refresh_tokens_disabled_user:
  assumes "tok \<noteq> []"
    and "ext_decode_token L now tok = Inr c"
    and "find (live_session (ext_hash_token L tok)) (sessions d) = Some s"
    and "\<not> expires_at s < now"
    and "(case find (\<lambda>u. Some (JInt (u_id u)) = c ''sub'') (users d) of
            None \<Rightarrow> True | Some u \<Rightarrow> \<not> is_active u)"
  shows "(\<exists>msg. refresh_tokens L n now d (Some tok) = Inl (AuthenticationError msg))
       \<and> db_after d (refresh_tokens L n now d (Some tok)) = d
       \<and> (c ''type'' = Some (JStr ''refresh'') \<and> c ''sub'' \<noteq> None \<and> c ''sub'' \<noteq> Some JNull \<longrightarrow>
            refresh_tokens L n now d (Some tok) =
              Inl (AuthenticationError ''User not found or disabled''))"
  using assms
  by (auto simp: refresh_tokens_def db_after_def Let_def split: option.splits)

theorem refresh_tokens_disabled_user_witness:
  "refresh_tokens example_deps 7 0
     (example_db\<lparr>users := [example_admin\<lparr>is_active := False\<rparr>]\<rparr>) (Some ''r1'') =
     Inl (AuthenticationError ''User not found or disabled'')"
proof -
  let ?d = "example_db\<lparr>users := [example_admin\<lparr>is_active := False\<rparr>]\<rparr>"
  have h1: "''r1'' \<noteq> []" by simp
  have h2: "ext_decode_token example_deps 0 ''r1'' = Inr example_refresh_claims"
    by (simp add: example_deps_def)
  have h3: "find (live_session (ext_hash_token example_deps ''r1'')) (sessions ?d)
              = Some example_session"
    by (simp add: example_deps_def example_db_def example_session_def live_session_def)
  have h4: "\<not> expires_at example_session < 0"
    by (simp add: example_session_def)
  have h5: "(case find (\<lambda>u. Some (JInt (u_id u)) = example_refresh_claims ''sub'') (users ?d) of
               None \<Rightarrow> True | Some u \<Rightarrow> \<not> is_active u)"
    by (simp add: example_refresh_claims_def example_admin_def)
  have "example_refresh_claims ''type'' = Some (JStr ''refresh'')
        \<and> example_refresh_claims ''sub'' \<noteq> None \<and> example_refresh_claims ''sub'' \<noteq> Some JNull"
    by (simp add: example_refresh_claims_def)
  with refresh_tokens_disabled_user [OF h1 h2 h3 h4 h5, of 7] show ?thesis
    by blast
qed



section \<open>Properties of local login\<close>

text \<open>
  C3.  As stated the claim fails: an existing account without a local identity and with a
  non-local provider is told to use its configured provider, whatever the password, while
  an unknown username gets the generic error.
\<close>

theorem login_provider_message_counterexample:
  "login_user example_sso_db ''carol'' = Some example_sso_user
   \<and> password_rejected example_deps ''wrong'' example_sso_user
   \<and> login_user example_sso_db ''ghost'' = None
   \<and> login example_deps 7 0 example_sso_db ''carol'' ''wrong'' None ''curl'' =
       Inl (HTTPException 401 ''Please use your configured authentication provider to log in'')
   \<and> login example_deps 7 0 example_sso_db ''ghost'' ''wrong'' None ''curl'' =
       Inl (HTTPException 401 ''Invalid username or password'')
   \<and> login example_deps 7 0 example_sso_db ''carol'' ''wrong'' None ''curl'' \<noteq>
       login example_deps 7 0 example_sso_db ''ghost'' ''wrong'' None ''curl''"
  by (simp add: login_def login_user_def login_user_filter_def login_identity_def
        has_local_identity_def password_rejected_def example_sso_db_def example_sso_user_def
        example_sso_identity_def example_admin_def)

text \<open>
  C3, amended.  A login that fails because no user matches the username, or because a
  user who may log in locally (a local identity, or the legacy provider tag
  \<^verbatim>\<open>local\<close>) has no password hash or a wrong password, gets the one generic error
  "Invalid username or password"; a user with neither a local identity nor the local
  provider tag gets the provider message instead.
\<close>

theorem login_generic_credential_error:
  "(login_user d uname = None \<longrightarrow>
      login L n now d uname pw host agent =
        Inl (HTTPException 401 ''Invalid username or password''))
   \<and> (\<forall>u. login_user d uname = Some u
          \<and> (has_local_identity d u \<or> auth_provider u = ''local'')
          \<and> password_rejected L pw u \<longrightarrow>
      login L n now d uname pw host agent =
        Inl (HTTPException 401 ''Invalid username or password''))
   \<and> (\<forall>u. login_user d uname = Some u
          \<and> \<not> has_local_identity d u \<and> auth_provider u \<noteq> ''local'' \<longrightarrow>
      login L n now d uname pw host agent =
        Inl (HTTPException 401
               ''Please use your configured authentication provider to log in''))"
  by (auto simp: login_def)

theorem login_generic_credential_error_witness:
  "login example_deps 7 0 example_sso_db ''admin'' ''wrong'' None ''curl'' =
     login example_deps 7 0 example_sso_db ''ghost'' ''wrong'' None ''curl''
   \<and> login example_deps 7 0 example_sso_db ''admin'' ''wrong'' None ''curl'' =
       Inl (HTTPException 401 ''Invalid username or password'')"
proof -
  have a: "login_user example_sso_db ''admin'' = Some example_admin"
    by (simp add: login_user_def login_user_filter_def login_identity_def example_sso_db_def
          example_sso_identity_def example_admin_def)
  have b: "has_local_identity example_sso_db example_admin \<or> auth_provider example_admin = ''local''"
    by (simp add: example_admin_def)
  have c: "password_rejected example_deps ''wrong'' example_admin"
    by (simp add: password_rejected_def example_admin_def example_deps_def)
  have g: "login_user example_sso_db ''ghost'' = None"
    by (simp add: login_user_def login_user_filter_def login_identity_def example_sso_db_def
          example_sso_identity_def example_admin_def example_sso_user_def)
  from login_generic_credential_error [of example_sso_db "''admin''" example_deps 7 0 "''wrong''" None "''curl''"] a b c
  have 1: "login example_deps 7 0 example_sso_db ''admin'' ''wrong'' None ''curl'' =
       Inl (HTTPException 401 ''Invalid username or password'')"
    by blast
  from login_generic_credential_error [of example_sso_db "''ghost''" example_deps 7 0 "''wrong''" None "''curl''"] g
  have 2: "login example_deps 7 0 example_sso_db ''ghost'' ''wrong'' None ''curl'' =
       Inl (HTTPException 401 ''Invalid username or password'')"
    by blast
  from 1 2 show ?thesis by simp
qed

section \<open>Properties of identity unlinking\<close>

lemma length_filter_delete_first:
  "length (filter Q xs) \<le> Suc (length (filter Q (delete_first P xs)))"
  by (induction xs) auto

lemma filter_delete_first_other:
  assumes "\<And>x. P x \<Longrightarrow> \<not> Q x"
  shows "filter Q (delete_first P xs) = filter Q xs"
  using assms by (induction xs) auto

lemma length_filter_remove:
  "length (filter Q xs) \<le> length (filter Q (filter (\<lambda>x. \<not> P x) xs)) + length (filter P xs)"
  by (induction xs) auto

lemma primary_key_filter:
  assumes "distinct (map i_id xs)"
  shows "length (filter (\<lambda>i. i_id i = k \<and> R i) xs) \<le> 1"
  using assms
proof (induction xs)
  case Nil
  then show ?case by simp
next
  case (Cons x xs)
  show ?case
  proof (cases "i_id x = k")
    case True
    from Cons.prems have "i_id x \<notin> set (map i_id xs)" by simp
    with True have "\<forall>y \<in> set xs. i_id y \<noteq> k" by (auto simp: image_iff)
    then have "filter (\<lambda>i. i_id i = k \<and> R i) xs = []"
      by (simp add: filter_empty_conv)
    then show ?thesis by simp
  next
    case False
    with Cons show ?thesis by simp
  qed
qed

lemma unlink_identity_count:
  assumes "1 \<le> identity_count d v"
  shows "1 \<le> identity_count (db_after d (unlink_identity d u k)) v"
proof (cases "unlink_identity d u k")
  case (Inl e)
  with assms show ?thesis by (simp add: db_after_def)
next
  case (Inr res)
  let ?P = "\<lambda>i. i_id i = k \<and> i_user_id i = u"
  from Inr have big: "\<not> identity_count d u \<le> 1"
    and after: "identities (db_after d (unlink_identity d u k)) = delete_first ?P (identities d)"
    by (auto simp: unlink_identity_def db_after_def split: option.splits if_splits)
  show ?thesis
  proof (cases "v = u")
    case True
    have "length (filter (\<lambda>i. i_user_id i = u) (identities d))
            \<le> Suc (length (filter (\<lambda>i. i_user_id i = u) (delete_first ?P (identities d))))"
      by (rule length_filter_delete_first)
    with big True after show ?thesis by (simp add: identity_count_def)
  next
    case False
    then have "filter (\<lambda>i. i_user_id i = v) (delete_first ?P (identities d))
                 = filter (\<lambda>i. i_user_id i = v) (identities d)"
      by (intro filter_delete_first_other) auto
    with assms after show ?thesis by (simp add: identity_count_def)
  qed
qed

lemma remove_user_identity_count:
  assumes "distinct (map i_id (identities d))" and "1 \<le> identity_count d v"
  shows "1 \<le> identity_count (fst (remove_user_identity d k u)) v"
proof (cases "identity_count d u \<le> 1")
  case True
  with assms(2) show ?thesis by (simp add: remove_user_identity_def)
next
  case False
  let ?P = "\<lambda>i. i_id i = k \<and> i_user_id i = u"
  let ?Q = "\<lambda>i. i_user_id i = v"
  from False have after:
    "identities (fst (remove_user_identity d k u)) = filter (\<lambda>i. \<not> ?P i) (identities d)"
    by (simp add: remove_user_identity_def Let_def)
  have one: "length (filter ?P (identities d)) \<le> 1"
    using assms(1) by (rule primary_key_filter)
  have split: "length (filter ?Q (identities d))
          \<le> length (filter ?Q (filter (\<lambda>i. \<not> ?P i) (identities d))) + length (filter ?P (identities d))"
    by (rule length_filter_remove)
  show ?thesis
  proof (cases "v = u")
    case True
    with False one split after show ?thesis by (simp add: identity_count_def)
  next
    case False
    then have "filter ?Q (filter (\<lambda>i. \<not> ?P i) (identities d)) = filter ?Q (identities d)"
      by (auto intro: filter_cong)
    with assms(2) after show ?thesis by (simp add: identity_count_def)
  qed
qed

text \<open>
  C4.  A user with exactly one identity row cannot unlink: the route raises, the helper
  returns false, and no row is deleted.  Hence unlinking keeps every user who has an
  identity with at least one (for the helper's bulk delete, identity ids being the
  table's primary key).
\<close>

theorem unlink_keeps_last_identity:
  "(identity_count d u = 1 \<longrightarrow>
      (\<exists>e. unlink_identity d u k = Inl e)
      \<and> db_after d (unlink_identity d u k) = d
      \<and> remove_user_identity d k u = (d, False))
   \<and> (\<forall>v. 1 \<le> identity_count d v \<longrightarrow>
          1 \<le> identity_count (db_after d (unlink_identity d u k)) v)
   \<and> (distinct (map i_id (identities d)) \<longrightarrow>
        (\<forall>v. 1 \<le> identity_count d v \<longrightarrow>
          1 \<le> identity_count (fst (remove_user_identity d k u)) v))"
proof (intro conjI impI allI)
  assume one: "identity_count d u = 1"
  then show "\<exists>e. unlink_identity d u k = Inl e"
    by (simp add: unlink_identity_def split: option.splits)
  then show "db_after d (unlink_identity d u k) = d"
    by (auto simp: db_after_def)
  from one show "remove_user_identity d k u = (d, False)"
    by (simp add: remove_user_identity_def)
next
  fix v assume "1 \<le> identity_count d v"
  then show "1 \<le> identity_count (db_after d (unlink_identity d u k)) v"
    by (rule unlink_identity_count)
next
  fix v assume "distinct (map i_id (identities d))" and "1 \<le> identity_count d v"
  then show "1 \<le> identity_count (fst (remove_user_identity d k u)) v"
    by (rule remove_user_identity_count)
qed

theorem unlink_keeps_last_identity_witness:
  "unlink_identity example_sso_db 2 10 =
     Inl (HTTPException 400 ''Cannot unlink your last identity - you would be locked out'')
   \<and> remove_user_identity example_sso_db 10 2 = (example_sso_db, False)
   \<and> unlink_identity
        (example_sso_db\<lparr>identities := [example_sso_identity, example_local_identity]\<rparr>) 2 10 =
       Inr (example_sso_db\<lparr>identities := [example_local_identity]\<rparr>,
            ''Identity unlinked successfully'')
   \<and> 1 \<le> identity_count
        (db_after (example_sso_db\<lparr>identities := [example_sso_identity, example_local_identity]\<rparr>)
           (unlink_identity
              (example_sso_db\<lparr>identities := [example_sso_identity, example_local_identity]\<rparr>)
              2 10)) 2"
proof -
  let ?d2 = "example_sso_db\<lparr>identities := [example_sso_identity, example_local_identity]\<rparr>"
  have c1: "identity_count example_sso_db 2 = 1"
    by (simp add: identity_count_def example_sso_db_def example_sso_identity_def)
  have c2: "1 \<le> identity_count ?d2 2"
    by (simp add: identity_count_def example_sso_identity_def example_local_identity_def)
  have a: "unlink_identity example_sso_db 2 10 =
     Inl (HTTPException 400 ''Cannot unlink your last identity - you would be locked out'')"
    by (simp add: unlink_identity_def identity_count_def example_sso_db_def
          example_sso_identity_def)
  have b: "unlink_identity ?d2 2 10 =
       Inr (example_sso_db\<lparr>identities := [example_local_identity]\<rparr>,
            ''Identity unlinked successfully'')"
    by (simp add: unlink_identity_def identity_count_def example_sso_db_def
          example_sso_identity_def example_local_identity_def)
  from unlink_keeps_last_identity [of example_sso_db 2 10] c1
  have r: "remove_user_identity example_sso_db 10 2 = (example_sso_db, False)"
    by blast
  from unlink_keeps_last_identity [of ?d2 2 10] c2
  have k: "1 \<le> identity_count (db_after ?d2 (unlink_identity ?d2 2 10)) 2"
    by blast
  from a b r k show ?thesis by blast
qed

section \<open>Properties of password reset\<close>

lemma find_unique_iff:
  assumes "length (filter P xs) \<le> 1"
  shows "(case find P xs of None \<Rightarrow> False | Some x \<Rightarrow> Q x) \<longleftrightarrow> (\<exists>x \<in> set xs. P x \<and> Q x)"
  using assms
proof (induction xs)
  case Nil
  then show ?case by simp
next
  case (Cons x xs)
  show ?case
  proof (cases "P x")
    case True
    with Cons.prems have "filter P xs = []" by simp
    then have "\<forall>y \<in> set xs. \<not> P y" by (simp add: filter_empty_conv)
    with True show ?thesis by auto
  next
    case False
    with Cons show ?thesis by simp
  qed
qed

text \<open>
  C6.  \<^verbatim>\<open>forgot_password\<close> answers with the same success response whatever the
  email; it appends one reset-token row, expiring one hour after the request, exactly when
  the user found by the email is active and has the provider tag \<^verbatim>\<open>local\<close>, and
  otherwise leaves the store as it was.  Where at most one user carries the email, that
  is: exactly when some user has that email, is active and is local.
\<close>

theorem forgot_password_token_iff:
  "snd (snd (forgot_password L now raw salt url d em)) =
      ForgotPasswordResponse forgot_password_message
   \<and> ((case find (\<lambda>u. email u = Some em) (users d) of
          None \<Rightarrow> False | Some u \<Rightarrow> is_active u \<and> auth_provider u = ''local'')
        \<longrightarrow> (\<exists>t. fst (forgot_password L now raw salt url d em) =
                    d\<lparr>reset_tokens := reset_tokens d @ [t]\<rparr>
                 \<and> t_expires_at t = now + 3600 \<and> used_at t = None
                 \<and> token_hash t = ext_hash_password L salt raw
                 \<and> Some (t_user_id t) = map_option u_id (find (\<lambda>u. email u = Some em) (users d))))
   \<and> (\<not> (case find (\<lambda>u. email u = Some em) (users d) of
          None \<Rightarrow> False | Some u \<Rightarrow> is_active u \<and> auth_provider u = ''local'')
        \<longrightarrow> fst (forgot_password L now raw salt url d em) = d)
   \<and> (length (filter (\<lambda>u. email u = Some em) (users d)) \<le> 1 \<longrightarrow>
        ((case find (\<lambda>u. email u = Some em) (users d) of
            None \<Rightarrow> False | Some u \<Rightarrow> is_active u \<and> auth_provider u = ''local'')
         \<longleftrightarrow> (\<exists>u \<in> set (users d). email u = Some em \<and> is_active u \<and> auth_provider u = ''local'')))"
proof (intro conjI impI)
  show "snd (snd (forgot_password L now raw salt url d em)) =
      ForgotPasswordResponse forgot_password_message"
    by (simp add: forgot_password_def Let_def split: option.splits)
next
  assume "case find (\<lambda>u. email u = Some em) (users d) of
          None \<Rightarrow> False | Some u \<Rightarrow> is_active u \<and> auth_provider u = ''local''"
  then show "\<exists>t. fst (forgot_password L now raw salt url d em) =
                    d\<lparr>reset_tokens := reset_tokens d @ [t]\<rparr>
                 \<and> t_expires_at t = now + 3600 \<and> used_at t = None
                 \<and> token_hash t = ext_hash_password L salt raw
                 \<and> Some (t_user_id t) = map_option u_id (find (\<lambda>u. email u = Some em) (users d))"
    by (auto simp: forgot_password_def Let_def hours_def split: option.splits)
next
  assume "\<not> (case find (\<lambda>u. email u = Some em) (users d) of
          None \<Rightarrow> False | Some u \<Rightarrow> is_active u \<and> auth_provider u = ''local'')"
  then show "fst (forgot_password L now raw salt url d em) = d"
    by (auto simp: forgot_password_def Let_def split: option.splits)
next
  assume uniq: "length (filter (\<lambda>u. email u = Some em) (users d)) \<le> 1"
  show "(case find (\<lambda>u. email u = Some em) (users d) of
            None \<Rightarrow> False | Some u \<Rightarrow> is_active u \<and> auth_provider u = ''local'')
         \<longleftrightarrow> (\<exists>u \<in> set (users d). email u = Some em \<and> is_active u \<and> auth_provider u = ''local'')"
    using uniq by (rule find_unique_iff)
qed

theorem forgot_password_token_iff_witness:
  "(\<exists>t. fst (forgot_password example_deps 0 ''tok-1'' 0 ''http://localhost:6100'' example_db
              ''admin@example.org'') = example_db\<lparr>reset_tokens := reset_tokens example_db @ [t]\<rparr>
        \<and> t_expires_at t = 0 + 3600 \<and> used_at t = None)
   \<and> fst (forgot_password example_deps 0 ''tok-1'' 0 ''http://localhost:6100'' example_db
            ''nobody@example.org'') = example_db"
proof -
  have yes: "case find (\<lambda>u. email u = Some ''admin@example.org'') (users example_db) of
          None \<Rightarrow> False | Some u \<Rightarrow> is_active u \<and> auth_provider u = ''local''"
    by (simp add: example_db_def example_admin_def)
  have no: "\<not> (case find (\<lambda>u. email u = Some ''nobody@example.org'') (users example_db) of
          None \<Rightarrow> False | Some u \<Rightarrow> is_active u \<and> auth_provider u = ''local'')"
    by (simp add: example_db_def example_admin_def)
  from forgot_password_token_iff
         [of example_deps 0 "''tok-1''" 0 "''http://localhost:6100''" example_db
             "''admin@example.org''"] yes
  have a: "\<exists>t. fst (forgot_password example_deps 0 ''tok-1'' 0 ''http://localhost:6100'' example_db
              ''admin@example.org'') = example_db\<lparr>reset_tokens := reset_tokens example_db @ [t]\<rparr>
        \<and> t_expires_at t = 0 + 3600 \<and> used_at t = None"
    by blast
  from forgot_password_token_iff
         [of example_deps 0 "''tok-1''" 0 "''http://localhost:6100''" example_db
             "''nobody@example.org''"] no
  have b: "fst (forgot_password example_deps 0 ''tok-1'' 0 ''http://localhost:6100'' example_db
            ''nobody@example.org'') = example_db"
    by blast
  from a b show ?thesis by blast
qed







section \<open>Properties of the settings cache\<close>



section \<open>Properties of the password policy\<close>

text \<open>
  C7.  \<^verbatim>\<open>validate_password\<close> reports a password valid exactly when every rule that
  is switched on passes (length, uppercase, lowercase, digit, optional special character,
  deny-list, username), and otherwise returns exactly one error, that of the first rule
  failing in that order; valid results carry no error.  With the default settings
  \<^verbatim>\<open>Short1!\<close> is invalid with the length error, and \<^verbatim>\<open>ValidPass123!\<close> is valid
  with no error whenever it is not on the deny-list.
\<close>

theorem validate_password_first_failing_rule:
  "error (validate_password cfg common p u) =
      find (\<lambda>r. \<not> rule_passes cfg common u p r) (enabled_rules cfg)
   \<and> (valid (validate_password cfg common p u) \<longleftrightarrow>
        (\<forall>r \<in> set (enabled_rules cfg). rule_passes cfg common u p r))
   \<and> (valid (validate_password cfg common p u) \<longleftrightarrow>
        error (validate_password cfg common p u) = None)
   \<and> min_password_length LocalAuthSettings = 8
   \<and> validate_password LocalAuthSettings common ''Short1!'' u =
        \<lparr>valid = False, error = Some MinLength\<rparr>
   \<and> (lower ''ValidPass123!'' \<notin> set (map lower common) \<longrightarrow>
        validate_password LocalAuthSettings common ''ValidPass123!'' None =
          \<lparr>valid = True, error = None\<rparr>)"
proof (intro conjI impI)
  show "error (validate_password cfg common p u) =
      find (\<lambda>r. \<not> rule_passes cfg common u p r) (enabled_rules cfg)"
    by (cases u) (auto simp: validate_password_def enabled_rules_def)
  show "valid (validate_password cfg common p u) \<longleftrightarrow>
        (\<forall>r \<in> set (enabled_rules cfg). rule_passes cfg common u p r)"
    by (cases u) (auto simp: validate_password_def enabled_rules_def)
  show "valid (validate_password cfg common p u) \<longleftrightarrow>
        error (validate_password cfg common p u) = None"
    by (simp add: validate_password_def)
  show "min_password_length LocalAuthSettings = 8"
    by (simp add: LocalAuthSettings_def)
  show "validate_password LocalAuthSettings common ''Short1!'' u =
        \<lparr>valid = False, error = Some MinLength\<rparr>"
    by (simp add: validate_password_def LocalAuthSettings_def)
next
  assume "lower ''ValidPass123!'' \<notin> set (map lower common)"
  then show "validate_password LocalAuthSettings common ''ValidPass123!'' None =
          \<lparr>valid = True, error = None\<rparr>"
    by (simp add: validate_password_def LocalAuthSettings_def is_upper_def is_lower_def
          is_digit_def)
qed

theorem validate_password_first_failing_rule_witness:
  "validate_password LocalAuthSettings example_common_passwords ''ValidPass123!'' None =
     \<lparr>valid = True, error = None\<rparr>
   \<and> validate_password LocalAuthSettings example_common_passwords ''Short1!'' None =
       \<lparr>valid = False, error = Some MinLength\<rparr>"
proof -
  have off: "lower ''ValidPass123!'' \<notin> set (map lower example_common_passwords)"
    by code_simp
  from validate_password_first_failing_rule
         [of LocalAuthSettings example_common_passwords "''ValidPass123!''" None] off
  have v: "validate_password LocalAuthSettings example_common_passwords ''ValidPass123!'' None =
     \<lparr>valid = True, error = None\<rparr>"
    by blast
  from validate_password_first_failing_rule
         [of LocalAuthSettings example_common_passwords "''ValidPass123!''" None]
  have s: "validate_password LocalAuthSettings example_common_passwords ''Short1!'' None =
       \<lparr>valid = False, error = Some MinLength\<rparr>"
    by blast
  from v s show ?thesis by blast
qed

section \<open>Properties of the token service\<close>

text \<open>
  C8.  Decoding an access token made for the user id \<^verbatim>\<open>uid\<close> and the username
  \<^verbatim>\<open>name\<close>, before it expires, yields claims with \<^verbatim>\<open>sub\<close> equal to \<^verbatim>\<open>uid\<close>,
  \<^verbatim>\<open>username\<close> equal to \<^verbatim>\<open>name\<close>, and \<^verbatim>\<open>exp\<close> minus \<^verbatim>\<open>iat\<close> equal to the
  configured access-token lifetime, which is 30 minutes by default.
\<close>

theorem decode_create_access_token:
  assumes "t \<le> now + minutes (access_token_expire_minutes cfg)"
  shows "\<exists>c iat_v exp_v.
           decode_token mac cfg t (create_access_token mac cfg now uid name None) = Inr c
         \<and> c ''sub'' = Some (JInt uid)
         \<and> c ''username'' = Some (JStr name)
         \<and> c ''iat'' = Some (JInt iat_v) \<and> c ''exp'' = Some (JInt exp_v)
         \<and> exp_v - iat_v = 60 * access_token_expire_minutes cfg
         \<and> c ''type'' = None
         \<and> access_token_expire_minutes JWTSettings = 30"
  using assms
  by (simp add: decode_token_def create_access_token_def sign_token_def minutes_def
        JWTSettings_def Let_def)

theorem decode_create_access_token_witness:
  "\<exists>c. decode_token example_signer example_jwt_settings 1000
          (create_access_token example_signer example_jwt_settings 1000 42 ''testuser'' None) = Inr c
       \<and> c ''sub'' = Some (JInt 42) \<and> c ''username'' = Some (JStr ''testuser'')
       \<and> c ''iat'' = Some (JInt 1000) \<and> c ''exp'' = Some (JInt 2800)"
proof -
  have h: "(1000::int) \<le> 1000 + minutes (access_token_expire_minutes example_jwt_settings)"
    by (simp add: minutes_def example_jwt_settings_def JWTSettings_def)
  from decode_create_access_token [OF h, of example_signer 42 "''testuser''"]
  obtain c iat_v exp_v where
    c: "decode_token example_signer example_jwt_settings 1000
          (create_access_token example_signer example_jwt_settings 1000 42 ''testuser'' None) = Inr c"
       "c ''sub'' = Some (JInt 42)" "c ''username'' = Some (JStr ''testuser'')"
       "c ''iat'' = Some (JInt iat_v)" "c ''exp'' = Some (JInt exp_v)"
    by blast
  have d: "decode_token example_signer example_jwt_settings 1000
          (create_access_token example_signer example_jwt_settings 1000 42 ''testuser'' None) =
        Inr (map_of [(''sub'', JInt 42), (''username'', JStr ''testuser''),
                     (''iat'', JInt 1000), (''exp'', JInt 2800)])"
    by (simp add: decode_token_def create_access_token_def sign_token_def minutes_def
          example_jwt_settings_def JWTSettings_def Let_def)
  with c have "c ''iat'' = Some (JInt 1000)" and "c ''exp'' = Some (JInt 2800)"
    by auto
  with c show ?thesis by blast
qed

end
